theory Spec2Isabelle
  imports Main
begin

section \<open>The posts page of my-profile-frontend\<close>

text \<open>
  \<^verbatim>\<open>src/app/page.tsx\<close> holds two revisions of the one client component \<^verbatim>\<open>Home\<close>:
  the first (lines 1-82) fetches a fixed URL and reads \<^verbatim>\<open>err.message\<close> of whatever was
  thrown; the second (lines 84-194) reads the base URL from the environment, checks
  \<^verbatim>\<open>err instanceof Error\<close> and renders richer cards. Both are embedded here: names
  without a suffix are the second revision, names ending in \<open>_rev1\<close> the first.
\<close>

subsection \<open>Data model\<close>

text \<open>
  \<^verbatim>\<open>interface Post\<close> (lines 6-17 and 90-101, the same fields in both revisions).
  \<^verbatim>\<open>imageUrl?: string\<close> is the only optional field; \<open>None\<close> stands for an absent
  value. \<^verbatim>\<open>id: number\<close> is only ever used as a React key.
\<close>

record Post =
  post_id :: int
  title :: string
  slug :: string
  content :: string
  excerpt :: string
  imageUrl :: "string option"
  published :: bool
  createdAt :: string
  updatedAt :: string
  tags :: "string list"

text \<open>
  A value caught by \<^verbatim>\<open>catch (err)\<close>: an instance of \<^verbatim>\<open>Error\<close> with its message, or
  any other thrown value, with what reading its \<^verbatim>\<open>message\<close> property gives (\<open>None\<close>
  for \<^verbatim>\<open>undefined\<close>).
\<close>

datatype js_thrown = ErrorInstance string | NonError "string option"

text \<open>How a promise settles.\<close>

datatype 'a settled = Fulfilled 'a | Rejected js_thrown

text \<open>
  The part of a fetch \<^verbatim>\<open>Response\<close> the page reads: \<^verbatim>\<open>response.status\<close> and what
  \<^verbatim>\<open>response.json()\<close> settles to. The source annotates the parsed body as
  \<^verbatim>\<open>Post[]\<close>.
\<close>

record Response =
  status :: nat
  json :: "Post list settled"

text \<open>\<^verbatim>\<open>response.ok\<close>: the status is in the range 200-299.\<close>

definition ok :: "Response \<Rightarrow> bool" where
  "ok response = (200 \<le> status response \<and> status response \<le> 299)"

text \<open>\<^verbatim>\<open>fetch(url)\<close> without an init object issues a GET request.\<close>

datatype request = GET string

text \<open>
  What the page takes from its surroundings: the build-time environment value, the
  network, and the locale's date formatting.
\<close>

record runtime =
  NEXT_PUBLIC_BACKEND_URL :: "string option"
  fetch :: "request \<Rightarrow> Response settled"
  toLocaleDateString :: "string \<Rightarrow> string"

text \<open>
  The three \<^verbatim>\<open>useState\<close> cells of \<^verbatim>\<open>Home\<close>, the dependency array the effect last
  ran with (\<open>None\<close> before the component is mounted), and a log of the requests
  issued so far.
\<close>

record page =
  posts :: "Post list"
  loading :: bool
  error :: "string option"
  effect_deps :: "unit list option"
  requests :: "request list"

text \<open>\<^verbatim>\<open>useState<Post[]>([])\<close>, \<^verbatim>\<open>useState(true)\<close>, \<^verbatim>\<open>useState<string | null>(null)\<close>.\<close>

definition initial_page :: page where
  "initial_page =
     \<lparr>posts = [], loading = True, error = None, effect_deps = None, requests = []\<rparr>"

definition setPosts :: "Post list \<Rightarrow> page \<Rightarrow> page" where
  "setPosts data s = s\<lparr>posts := data\<rparr>"

definition setLoading :: "bool \<Rightarrow> page \<Rightarrow> page" where
  "setLoading b s = s\<lparr>loading := b\<rparr>"

definition setError :: "string option \<Rightarrow> page \<Rightarrow> page" where
  "setError e s = s\<lparr>error := e\<rparr>"

subsection \<open>JavaScript values\<close>

text \<open>
  Truthiness of a \<^verbatim>\<open>string | null | undefined\<close>: only a non-empty string is truthy.
\<close>

fun truthy :: "string option \<Rightarrow> bool" where
  "truthy None = False"
| "truthy (Some v) = (v \<noteq> [])"

text \<open>\<^verbatim>\<open>a || b\<close> with a string default.\<close>

fun js_or :: "string option \<Rightarrow> string \<Rightarrow> string" where
  "js_or None d = d"
| "js_or (Some v) d = (if v \<noteq> [] then v else d)"

text \<open>Decimal digits of a number, as a template literal prints an integer.\<close>

definition digit_char :: "nat \<Rightarrow> char" where
  "digit_char d = char_of (48 + d)"

fun string_of_nat :: "nat \<Rightarrow> string" where
  "string_of_nat n =
     (if n < 10 then [digit_char n] else string_of_nat (n div 10) @ [digit_char (n mod 10)])"

declare string_of_nat.simps [simp del]

subsection \<open>The effect: \<^verbatim>\<open>fetchPosts\<close>\<close>

text \<open>
  Second revision, lines 110-135. The \<^verbatim>\<open>catch\<close> clause is \<open>catch_clause\<close>; the
  \<^verbatim>\<open>finally\<close> clause runs on every path.
\<close>

definition catch_clause :: "js_thrown \<Rightarrow> page \<Rightarrow> page" where
  "catch_clause err s =
     (case err of
        ErrorInstance message \<Rightarrow> setError (Some message) s
      | NonError _ \<Rightarrow> setError (Some ''An unknown error occurred.'') s)"

definition backendUrl :: "runtime \<Rightarrow> string" where
  "backendUrl rt = js_or (NEXT_PUBLIC_BACKEND_URL rt) ''http://localhost:8080''"

definition posts_request :: "runtime \<Rightarrow> request" where
  "posts_request rt = GET (backendUrl rt @ ''/api/posts'')"

definition fetchPosts :: "runtime \<Rightarrow> page \<Rightarrow> page" where
  "fetchPosts rt s =
     (let req = posts_request rt;
          s1 = s\<lparr>requests := requests s @ [req]\<rparr>;
          s2 = (case fetch rt req of
                  Rejected err \<Rightarrow> catch_clause err s1
                | Fulfilled response \<Rightarrow>
                    if \<not> ok response
                    then catch_clause
                           (ErrorInstance (''HTTP error! status: '' @ string_of_nat (status response))) s1
                    else (case json response of
                            Rejected err \<Rightarrow> catch_clause err s1
                          | Fulfilled data \<Rightarrow> setPosts data s1))
      in setLoading False s2)"

text \<open>
  First revision, lines 25-41: the URL is a literal, and the \<^verbatim>\<open>catch\<close> clause stores
  \<^verbatim>\<open>err.message\<close> whatever \<^verbatim>\<open>err\<close> is.
\<close>

definition catch_clause_rev1 :: "js_thrown \<Rightarrow> page \<Rightarrow> page" where
  "catch_clause_rev1 err s =
     (case err of
        ErrorInstance message \<Rightarrow> setError (Some message) s
      | NonError message \<Rightarrow> setError message s)"

definition posts_request_rev1 :: request where
  "posts_request_rev1 = GET ''http://localhost:8080/api/posts''"

definition fetchPosts_rev1 :: "runtime \<Rightarrow> page \<Rightarrow> page" where
  "fetchPosts_rev1 rt s =
     (let req = posts_request_rev1;
          s1 = s\<lparr>requests := requests s @ [req]\<rparr>;
          s2 = (case fetch rt req of
                  Rejected err \<Rightarrow> catch_clause_rev1 err s1
                | Fulfilled response \<Rightarrow>
                    if \<not> ok response
                    then catch_clause_rev1
                           (ErrorInstance (''HTTP error! status: '' @ string_of_nat (status response))) s1
                    else (case json response of
                            Rejected err \<Rightarrow> catch_clause_rev1 err s1
                          | Fulfilled data \<Rightarrow> setPosts data s1))
      in setLoading False s2)"

subsection \<open>Markup\<close>

text \<open>
  What a JSX expression evaluates to: text, or an element with its type, its props
  (in source order, \<^verbatim>\<open>key\<close> included) and its children. An expression child that is
  \<^verbatim>\<open>undefined\<close>, \<^verbatim>\<open>null\<close> or \<^verbatim>\<open>false\<close> leaves no child.
\<close>

datatype attr_value = Str string | Num int | Flag bool

datatype node = Text string | Element string "(string \<times> attr_value) list" "node list"

text \<open>\<^verbatim>\<open>{v && <X ... />}\<close> for a \<^verbatim>\<open>string | undefined\<close> value \<open>v\<close>.\<close>

fun jsx_and :: "string option \<Rightarrow> (string \<Rightarrow> node) \<Rightarrow> node list" where
  "jsx_and None x = []"
| "jsx_and (Some v) x = (if v \<noteq> [] then [x v] else [])"

text \<open>\<^verbatim>\<open>{v}\<close> for a \<^verbatim>\<open>string | null\<close> value \<open>v\<close>.\<close>

fun jsx_text :: "string option \<Rightarrow> node list" where
  "jsx_text None = []"
| "jsx_text (Some v) = [Text v]"

text \<open>\<^verbatim>\<open>xs.map((x, index) => ...)\<close>: the elements with their indices.\<close>

definition map_index :: "(nat \<Rightarrow> 'a \<Rightarrow> 'b) \<Rightarrow> 'a list \<Rightarrow> 'b list" where
  "map_index f xs = map (\<lambda>(index, x). f index x) (enumerate 0 xs)"

subsection \<open>The view, second revision\<close>

text \<open>Lines 175-179: one tag.\<close>

definition TagSpan :: "nat \<Rightarrow> string \<Rightarrow> node" where
  "TagSpan index tag =
     Element ''span''
       [(''key'', Num (int index)),
        (''className'', Str ''bg-blue-50 text-blue-700 text-xs font-medium px-3 py-1 rounded-full border border-blue-200'')]
       [Text tag]"

text \<open>Lines 163-170: the image of a card.\<close>

definition CardImage :: "Post \<Rightarrow> string \<Rightarrow> node" where
  "CardImage post url =
     Element ''Image''
       [(''src'', Str url),
        (''alt'', Str (title post)),
        (''width'', Num 600),
        (''height'', Num 300),
        (''className'', Str ''w-full h-48 object-cover rounded-lg mb-4 border border-gray-200''),
        (''unoptimized'', Flag True)]
       []"

text \<open>Lines 158-186: the callback of \<^verbatim>\<open>posts.map\<close>, one card.\<close>

definition PostCard :: "runtime \<Rightarrow> Post \<Rightarrow> node" where
  "PostCard rt post =
     Element ''div''
       [(''key'', Num (post_id post)),
        (''className'', Str ''bg-white p-6 rounded-xl shadow-lg border border-gray-100 transform transition-transform duration-300 hover:scale-105 hover:shadow-xl'')]
       (jsx_and (imageUrl post) (CardImage post) @
        [Element ''h3'' [(''className'', Str ''text-2xl font-semibold text-gray-900 mb-2'')]
           [Text (title post)],
         Element ''p'' [(''className'', Str ''text-gray-700 text-base mb-4 line-clamp-3'')]
           [Text (excerpt post)],
         Element ''div'' [(''className'', Str ''flex flex-wrap gap-2 mb-4'')]
           (map_index TagSpan (tags post)),
         Element ''p'' [(''className'', Str ''text-sm text-gray-500'')]
           [Text ''Published: '', Text (toLocaleDateString rt (createdAt post))],
         Element ''a''
           [(''href'', Str (''/blog/'' @ slug post)),
            (''className'', Str ''block mt-4 text-blue-600 hover:text-blue-800 font-medium transition-colors duration-200'')]
           [Text (''Read More '' @ [CHR 0xE2, CHR 0x86, CHR 0x92])]])"

text \<open>Lines 141-193: what \<^verbatim>\<open>Home\<close> returns for the state it was called with.\<close>

definition Home_view :: "runtime \<Rightarrow> page \<Rightarrow> node" where
  "Home_view rt s =
     (if loading s then
        Element ''p'' [(''className'', Str ''text-center text-gray-500 text-xl mt-20'')]
          [Text ''Loading posts from backend...'']
      else if truthy (error s) then
        Element ''p'' [(''className'', Str ''text-center text-red-500 text-xl mt-20'')]
          (Text ''Error fetching data: '' # jsx_text (error s))
      else if length (posts s) = 0 then
        Element ''p'' [(''className'', Str ''text-center text-gray-500 text-xl mt-20'')]
          [Text ''No posts found yet. Add some via the backend API!'']
      else
        Element ''main''
          [(''className'', Str ''flex min-h-screen flex-col items-center p-8 md:p-12 lg:p-24 bg-gray-50 font-sans'')]
          [Element ''h1''
             [(''className'', Str ''text-4xl md:text-5xl font-extrabold text-center text-gray-900 mb-8 rounded-xl p-6 bg-white shadow-lg border border-blue-100'')]
             [Text ''My Full-Stack Profile Site''],
           Element ''p''
             [(''className'', Str ''text-lg md:text-xl text-gray-700 text-center mb-12 max-w-2xl'')]
             [Text ''Content dynamically loaded from a Java Spring Boot Backend.''],
           Element ''section'' [(''className'', Str ''w-full max-w-6xl'')]
             [Element ''h2'' [(''className'', Str ''text-3xl font-bold text-gray-800 mb-6 text-center'')]
                [Text ''Latest Blog Posts''],
              Element ''div''
                [(''className'', Str ''grid grid-cols-1 md:grid-cols-2 lg:grid-cols-3 gap-8'')]
                (map (PostCard rt) (posts s))]])"

subsection \<open>The view, first revision\<close>

text \<open>Lines 70-74.\<close>

definition TagSpan_rev1 :: "nat \<Rightarrow> string \<Rightarrow> node" where
  "TagSpan_rev1 index tag =
     Element ''span''
       [(''key'', Num (int index)),
        (''className'', Str ''bg-blue-100 text-blue-800 text-xs font-medium px-2.5 py-0.5 rounded-full'')]
       [Text tag]"

text \<open>Line 65.\<close>

definition CardImage_rev1 :: "Post \<Rightarrow> string \<Rightarrow> node" where
  "CardImage_rev1 post url =
     Element ''img''
       [(''src'', Str url),
        (''alt'', Str (title post)),
        (''className'', Str ''w-full h-40 object-cover rounded-md mb-4'')]
       []"

text \<open>Lines 62-77.\<close>

definition PostCard_rev1 :: "runtime \<Rightarrow> Post \<Rightarrow> node" where
  "PostCard_rev1 rt post =
     Element ''div''
       [(''key'', Num (post_id post)),
        (''className'', Str ''bg-white p-6 rounded-lg shadow-md border border-gray-200'')]
       (jsx_and (imageUrl post) (CardImage_rev1 post) @
        [Element ''h2'' [(''className'', Str ''text-2xl font-semibold text-gray-900 mb-2'')]
           [Text (title post)],
         Element ''p'' [(''className'', Str ''text-gray-700 text-sm mb-4'')]
           [Text (excerpt post)],
         Element ''div'' [(''className'', Str ''flex flex-wrap gap-2'')]
           (map_index TagSpan_rev1 (tags post)),
         Element ''p'' [(''className'', Str ''text-xs text-gray-500 mt-4'')]
           [Text ''Published: '', Text (toLocaleDateString rt (createdAt post))]])"

text \<open>Lines 46-81.\<close>

definition Home_view_rev1 :: "runtime \<Rightarrow> page \<Rightarrow> node" where
  "Home_view_rev1 rt s =
     (if loading s then
        Element ''p'' [(''className'', Str ''text-center text-gray-500'')]
          [Text ''Loading posts...'']
      else if truthy (error s) then
        Element ''p'' [(''className'', Str ''text-center text-red-500'')]
          (Text ''Error: '' # jsx_text (error s))
      else if length (posts s) = 0 then
        Element ''p'' [(''className'', Str ''text-center text-gray-500'')]
          [Text ''No posts found.'']
      else
        Element ''main''
          [(''className'', Str ''flex min-h-screen flex-col items-center justify-center p-24'')]
          [Element ''h1'' [(''className'', Str ''text-4xl font-bold text-center text-gray-800 mb-8'')]
             [Text ''Welcome to My Profile Site (Frontend)!''],
           Element ''p'' [(''className'', Str ''text-lg text-gray-600 mt-4 mb-8'')]
             [Text ''These posts are fetched from my Java Spring Boot Backend:''],
           Element ''div''
             [(''className'', Str ''grid grid-cols-1 md:grid-cols-2 lg:grid-cols-3 gap-8 w-full max-w-4xl'')]
             (map (PostCard_rev1 rt) (posts s))])"

subsection \<open>Mounting and re-rendering\<close>

text \<open>
  \<^verbatim>\<open>useEffect(effect, deps)\<close>: React runs the effect after the render that mounts the
  component, and after a later render only if the dependency array differs from the
  one of the previous run. The fetch the effect starts is taken to have settled
  before the next render.
\<close>

definition useEffect :: "(page \<Rightarrow> page) \<Rightarrow> unit list \<Rightarrow> page \<Rightarrow> page" where
  "useEffect effect deps s =
     (if (case effect_deps s of None \<Rightarrow> True | Some old \<Rightarrow> old \<noteq> deps)
      then effect (s\<lparr>effect_deps := Some deps\<rparr>)
      else s)"

text \<open>
  One call of the component: the markup for the current state, and the page once
  the effects of this render are done.
\<close>

definition Home :: "runtime \<Rightarrow> page \<Rightarrow> node \<times> page" where
  "Home rt s = (Home_view rt s, useEffect (fetchPosts rt) [] s)"

definition Home_rev1 :: "runtime \<Rightarrow> page \<Rightarrow> node \<times> page" where
  "Home_rev1 rt s = (Home_view_rev1 rt s, useEffect (fetchPosts_rev1 rt) [] s)"

subsection \<open>A page session\<close>

datatype revision = Rev1 | Rev2

fun render_pass :: "revision \<Rightarrow> runtime \<Rightarrow> page \<Rightarrow> node \<times> page" where
  "render_pass Rev1 rt s = Home_rev1 rt s"
| "render_pass Rev2 rt s = Home rt s"

fun view :: "revision \<Rightarrow> runtime \<Rightarrow> page \<Rightarrow> node" where
  "view Rev1 rt s = Home_view_rev1 rt s"
| "view Rev2 rt s = Home_view rt s"

fun request_of :: "revision \<Rightarrow> runtime \<Rightarrow> request" where
  "request_of Rev1 rt = posts_request_rev1"
| "request_of Rev2 rt = posts_request rt"

fun card_of :: "revision \<Rightarrow> runtime \<Rightarrow> Post \<Rightarrow> node" where
  "card_of Rev1 rt post = PostCard_rev1 rt post"
| "card_of Rev2 rt post = PostCard rt post"

text \<open>
  \<open>session rv rt n s\<close>: \<open>n\<close> successive renders of the component starting from
  page \<open>s\<close>; the markup of each render, and the page at the end.
\<close>

fun session :: "revision \<Rightarrow> runtime \<Rightarrow> nat \<Rightarrow> page \<Rightarrow> node list \<times> page" where
  "session rv rt 0 s = ([], s)"
| "session rv rt (Suc n) s =
     (case render_pass rv rt s of
        (v, s') \<Rightarrow> (case session rv rt n s' of (vs, s'') \<Rightarrow> (v # vs, s'')))"

text \<open>The page once it is mounted and its fetch has settled, and what it then shows.\<close>

definition page_load :: "revision \<Rightarrow> runtime \<Rightarrow> page" where
  "page_load rv rt = snd (render_pass rv rt initial_page)"

definition settled_view :: "revision \<Rightarrow> runtime \<Rightarrow> node" where
  "settled_view rv rt = view rv rt (page_load rv rt)"

subsection \<open>Reading the markup\<close>

text \<open>
  The queries a rendering test makes: text content, elements by type, elements by
  class name, and the children of the grid container.
\<close>

fun text_content :: "node \<Rightarrow> string" where
  "text_content (Text t) = t"
| "text_content (Element tg attrs children) = concat (map text_content children)"

fun by_tag :: "string \<Rightarrow> node \<Rightarrow> node list" where
  "by_tag tg (Text t) = []"
| "by_tag tg (Element tg' attrs children) =
     (if tg' = tg then [Element tg' attrs children] else []) @ concat (map (by_tag tg) children)"

fun split_spaces :: "string \<Rightarrow> string \<Rightarrow> string list" where
  "split_spaces cur [] = (if cur = [] then [] else [cur])"
| "split_spaces cur (c # cs) =
     (if c = CHR '' '' then (if cur = [] then [] else [cur]) @ split_spaces [] cs
      else split_spaces (cur @ [c]) cs)"

fun class_list :: "node \<Rightarrow> string list" where
  "class_list (Text t) = []"
| "class_list (Element tg attrs children) =
     (case map_of attrs ''className'' of Some (Str c) \<Rightarrow> split_spaces [] c | _ \<Rightarrow> [])"

fun by_class :: "string \<Rightarrow> node \<Rightarrow> node list" where
  "by_class cl (Text t) = []"
| "by_class cl (Element tg attrs children) =
     (if cl \<in> set (class_list (Element tg attrs children)) then [Element tg attrs children] else [])
     @ concat (map (by_class cl) children)"

fun child_nodes :: "node \<Rightarrow> node list" where
  "child_nodes (Text t) = []"
| "child_nodes (Element tg attrs children) = children"

fun attribute :: "string \<Rightarrow> node \<Rightarrow> attr_value option" where
  "attribute a (Text t) = None"
| "attribute a (Element tg attrs children) = map_of attrs a"

definition post_cards :: "node \<Rightarrow> node list" where
  "post_cards v = concat (map child_nodes (by_class ''grid'' v))"

fun heading_tag :: "revision \<Rightarrow> string" where
  "heading_tag Rev1 = ''h2''"
| "heading_tag Rev2 = ''h3''"

fun image_tag :: "revision \<Rightarrow> string" where
  "image_tag Rev1 = ''img''"
| "image_tag Rev2 = ''Image''"

definition card_headings :: "revision \<Rightarrow> node \<Rightarrow> string list" where
  "card_headings rv c = map text_content (by_tag (heading_tag rv) c)"

definition card_paragraphs :: "node \<Rightarrow> string list" where
  "card_paragraphs c = map text_content (by_tag ''p'' c)"

definition card_tags :: "node \<Rightarrow> string list" where
  "card_tags c = map text_content (by_tag ''span'' c)"

definition card_images :: "revision \<Rightarrow> node \<Rightarrow> node list" where
  "card_images rv c = by_tag (image_tag rv) c"

text \<open>The four things the page can show, told apart by the markup alone.\<close>

datatype branch = LoadingMessage | ErrorMessage string | EmptyMessage | PostList

fun loading_text :: "revision \<Rightarrow> string" where
  "loading_text Rev1 = ''Loading posts...''"
| "loading_text Rev2 = ''Loading posts from backend...''"

fun error_prefix :: "revision \<Rightarrow> string" where
  "error_prefix Rev1 = ''Error: ''"
| "error_prefix Rev2 = ''Error fetching data: ''"

fun empty_text :: "revision \<Rightarrow> string" where
  "empty_text Rev1 = ''No posts found.''"
| "empty_text Rev2 = ''No posts found yet. Add some via the backend API!''"

fun strip_prefix :: "string \<Rightarrow> string \<Rightarrow> string option" where
  "strip_prefix [] ys = Some ys"
| "strip_prefix (x # xs) [] = None"
| "strip_prefix (x # xs) (y # ys) = (if x = y then strip_prefix xs ys else None)"

fun branch_of :: "revision \<Rightarrow> node \<Rightarrow> branch option" where
  "branch_of rv (Text t) = None"
| "branch_of rv (Element tg attrs children) =
     (if tg = ''main'' then Some PostList
      else if tg = ''p'' then
        (let txt = text_content (Element tg attrs children) in
         if txt = loading_text rv then Some LoadingMessage
         else if txt = empty_text rv then Some EmptyMessage
         else (case strip_prefix (error_prefix rv) txt of
                 Some message \<Rightarrow> Some (ErrorMessage message)
               | None \<Rightarrow> None))
      else None)"

fun image_of :: "revision \<Rightarrow> Post \<Rightarrow> string \<Rightarrow> node" where
  "image_of Rev1 post url = CardImage_rev1 post url"
| "image_of Rev2 post url = CardImage post url"

subsection \<open>Sample inputs\<close>

definition respond :: "Response settled \<Rightarrow> request \<Rightarrow> Response settled" where
  "respond outcome req = outcome"

definition sample_runtime :: "string option \<Rightarrow> Response settled \<Rightarrow> runtime" where
  "sample_runtime env outcome =
     \<lparr>NEXT_PUBLIC_BACKEND_URL = env, fetch = respond outcome, toLocaleDateString = id\<rparr>"

definition sample_post :: Post where
  "sample_post =
     \<lparr>post_id = 1, title = ''Hello'', slug = ''hello'', content = ''Body'', excerpt = ''First post'',
      imageUrl = None, published = True, createdAt = ''2024-01-01'', updatedAt = ''2024-01-02'',
      tags = [''java'', ''spring'']\<rparr>"

definition sample_post_with_image :: Post where
  "sample_post_with_image =
     \<lparr>post_id = 2, title = ''Pictures'', slug = ''pictures'', content = ''More'', excerpt = ''Second post'',
      imageUrl = Some ''https://example.com/a.png'', published = True,
      createdAt = ''2024-02-01'', updatedAt = ''2024-02-01'', tags = []\<rparr>"

definition http_response :: "nat \<Rightarrow> Post list settled \<Rightarrow> Response" where
  "http_response code body = \<lparr>status = code, json = body\<rparr>"

text \<open>A backend that answers with two posts, one that answers 404 or 500, one whose
  body is not JSON, and a fetch that rejects with \<^verbatim>\<open>new Error()\<close>.\<close>

definition two_posts_runtime :: runtime where
  "two_posts_runtime =
     sample_runtime None
       (Fulfilled (http_response 200 (Fulfilled [sample_post, sample_post_with_image])))"

definition no_posts_runtime :: runtime where
  "no_posts_runtime = sample_runtime None (Fulfilled (http_response 200 (Fulfilled [])))"

definition not_found_runtime :: runtime where
  "not_found_runtime = sample_runtime None (Fulfilled (http_response 404 (Fulfilled [])))"


definition bad_json_runtime :: runtime where
  "bad_json_runtime =
     sample_runtime None
       (Fulfilled (http_response 200 (Rejected (ErrorInstance ''Unexpected end of JSON input''))))"

definition configured_runtime :: runtime where
  "configured_runtime =
     sample_runtime (Some ''https://api.example.com'') (Fulfilled (http_response 200 (Fulfilled [])))"

definition empty_message_runtime :: runtime where
  "empty_message_runtime = sample_runtime None (Rejected (ErrorInstance []))"

section \<open>Properties\<close>

subsection \<open>Auxiliary facts\<close>

lemma by_tag_TagSpan: "by_tag tg (TagSpan i x) = (if tg = ''span'' then [TagSpan i x] else [])"
  by (simp add: TagSpan_def)

lemma by_tag_TagSpan_rev1:
  "by_tag tg (TagSpan_rev1 i x) = (if tg = ''span'' then [TagSpan_rev1 i x] else [])"
  by (simp add: TagSpan_rev1_def)

lemma by_class_TagSpan: "by_class ''grid'' (TagSpan i x) = []"
  by (simp add: TagSpan_def)

lemma by_class_TagSpan_rev1: "by_class ''grid'' (TagSpan_rev1 i x) = []"
  by (simp add: TagSpan_rev1_def)

lemma text_TagSpan: "text_content (TagSpan i x) = x"
  by (simp add: TagSpan_def)

lemma text_TagSpan_rev1: "text_content (TagSpan_rev1 i x) = x"
  by (simp add: TagSpan_rev1_def)

lemma concat_map_enumerate_single:
  assumes "\<And>i x. q (f i x) = [f i x]"
  shows "concat (map q (map (\<lambda>(i, x). f i x) (enumerate n ts))) =
           map (\<lambda>(i, x). f i x) (enumerate n ts)"
  using assms by (induction ts arbitrary: n) simp_all

lemma concat_map_enumerate_none:
  assumes "\<And>i x. q (f i x) = []"
  shows "concat (map q (map (\<lambda>(i, x). f i x) (enumerate n ts))) = []"
  using assms by (induction ts arbitrary: n) simp_all

lemma map_enumerate_text:
  assumes "\<And>i x. g (f i x) = x"
  shows "map g (map (\<lambda>(i, x). f i x) (enumerate n ts)) = ts"
  using assms by (induction ts arbitrary: n) simp_all

lemma concat_map_index_cond:
  assumes "\<And>i x. q (f i x) = (if b then [f i x] else [])"
  shows "concat (map q (map_index f ts)) = (if b then map_index f ts else [])"
proof (cases b)
  case True
  have "concat (map q (map_index f ts)) = map_index f ts"
    unfolding map_index_def by (rule concat_map_enumerate_single) (simp add: assms True)
  with True show ?thesis by (simp only: if_True)
next
  case False
  have "concat (map q (map_index f ts)) = []"
    unfolding map_index_def by (rule concat_map_enumerate_none) (simp add: assms False)
  with False show ?thesis by (simp only: if_False)
qed

lemma spans_by_tag:
  "concat (map (by_tag tg) (map_index TagSpan ts)) =
     (if tg = ''span'' then map_index TagSpan ts else [])"
  by (rule concat_map_index_cond) (rule by_tag_TagSpan)

lemma spans_by_tag_rev1:
  "concat (map (by_tag tg) (map_index TagSpan_rev1 ts)) =
     (if tg = ''span'' then map_index TagSpan_rev1 ts else [])"
  by (rule concat_map_index_cond) (rule by_tag_TagSpan_rev1)

lemma spans_by_class: "concat (map (by_class ''grid'') (map_index TagSpan ts)) = []"
  unfolding map_index_def by (rule concat_map_enumerate_none) (rule by_class_TagSpan)

lemma spans_by_class_rev1: "concat (map (by_class ''grid'') (map_index TagSpan_rev1 ts)) = []"
  unfolding map_index_def by (rule concat_map_enumerate_none) (rule by_class_TagSpan_rev1)

lemma spans_text: "map text_content (map_index TagSpan ts) = ts"
  unfolding map_index_def by (rule map_enumerate_text) (rule text_TagSpan)

lemma spans_text_rev1: "map text_content (map_index TagSpan_rev1 ts) = ts"
  unfolding map_index_def by (rule map_enumerate_text) (rule text_TagSpan_rev1)

lemmas card_defs = PostCard_def PostCard_rev1_def CardImage_def CardImage_rev1_def

lemmas span_simps = spans_by_tag spans_by_tag_rev1 spans_by_class spans_by_class_rev1
  spans_text spans_text_rev1

text \<open>What the queries find in one card.\<close>

lemma card_no_grid: "by_class ''grid'' (card_of rv rt p) = []"
  by (cases rv; cases "imageUrl p") (simp_all add: card_defs span_simps)

lemma card_headings_card: "card_headings rv (card_of rv rt p) = [title p]"
  by (cases rv; cases "imageUrl p") (simp_all add: card_headings_def card_defs span_simps)

lemma card_paragraphs_card:
  "card_paragraphs (card_of rv rt p) =
     [excerpt p, ''Published: '' @ toLocaleDateString rt (createdAt p)]"
  by (cases rv; cases "imageUrl p") (simp_all add: card_paragraphs_def card_defs span_simps)

lemma card_tags_card: "card_tags (card_of rv rt p) = tags p"
  by (cases rv; cases "imageUrl p") (simp_all add: card_tags_def card_defs span_simps)

lemma card_images_card:
  "card_images rv (card_of rv rt p) = jsx_and (imageUrl p) (image_of rv p)"
  by (cases rv; cases "imageUrl p") (simp_all add: card_images_def card_defs span_simps)

lemma cards_no_grid: "concat (map (by_class ''grid'') (map (card_of rv rt) ps)) = []"
  by (induction ps) (simp_all add: card_no_grid)

lemma card_of_fun: "card_of Rev1 rt = PostCard_rev1 rt" "card_of Rev2 rt = PostCard rt"
  by (rule ext, simp)+

text \<open>What the queries find in the whole view.\<close>

lemma post_cards_view:
  "post_cards (view rv rt s) =
     (if loading s \<or> truthy (error s) then [] else map (card_of rv rt) (posts s))"
proof (cases rv)
  case Rev1
  have "concat (map (by_class ''grid'') (map (PostCard_rev1 rt) (posts s))) = []"
    using cards_no_grid [of Rev1 rt "posts s"] by (simp only: card_of_fun)
  then show ?thesis
    by (cases "error s") (simp_all add: Rev1 post_cards_def Home_view_rev1_def card_of_fun)
next
  case Rev2
  have "concat (map (by_class ''grid'') (map (PostCard rt) (posts s))) = []"
    using cards_no_grid [of Rev2 rt "posts s"] by (simp only: card_of_fun)
  then show ?thesis
    by (cases "error s") (simp_all add: Rev2 post_cards_def Home_view_def card_of_fun)
qed

lemma branch_of_view:
  "branch_of rv (view rv rt s) =
     Some (if loading s then LoadingMessage
           else if truthy (error s) then ErrorMessage (case error s of Some e \<Rightarrow> e | None \<Rightarrow> [])
           else if posts s = [] then EmptyMessage
           else PostList)"
  by (cases rv; cases "error s") (simp_all add: Home_view_def Home_view_rev1_def)


text \<open>The page after the mount.\<close>

lemmas effect_defs = Home_def Home_rev1_def useEffect_def initial_page_def fetchPosts_def
  fetchPosts_rev1_def catch_clause_def catch_clause_rev1_def setPosts_def setLoading_def
  setError_def Let_def

lemma page_load_requests: "requests (page_load rv rt) = [request_of rv rt]"
  by (cases rv) (simp_all add: page_load_def effect_defs split: settled.splits js_thrown.splits)

lemma page_load_loading: "loading (page_load rv rt) = False"
  by (cases rv) (simp_all add: page_load_def effect_defs split: settled.splits js_thrown.splits)

lemma page_load_deps: "effect_deps (page_load rv rt) = Some []"
  by (cases rv) (simp_all add: page_load_def effect_defs split: settled.splits js_thrown.splits)

lemma page_load_success:
  assumes "fetch rt (request_of rv rt) = Fulfilled r" "ok r" "json r = Fulfilled ps"
  shows "posts (page_load rv rt) = ps" "error (page_load rv rt) = None"
  using assms by (cases rv; simp add: page_load_def effect_defs)+

lemma page_load_http_error:
  assumes "fetch rt (request_of rv rt) = Fulfilled r" "\<not> ok r"
  shows "posts (page_load rv rt) = []"
    "error (page_load rv rt) = Some (''HTTP error! status: '' @ string_of_nat (status r))"
  using assms by (cases rv; simp add: page_load_def effect_defs)+


lemma page_load_fetch_rejected:
  assumes "fetch rt (request_of rv rt) = Rejected (ErrorInstance m)"
  shows "posts (page_load rv rt) = []" "error (page_load rv rt) = Some m"
  using assms by (cases rv; simp add: page_load_def effect_defs)+

lemma render_pass_mounted:
  "effect_deps s = Some [] \<Longrightarrow> render_pass rv rt s = (view rv rt s, s)"
  by (cases rv) (simp_all add: Home_def Home_rev1_def useEffect_def)

lemma session_mounted:
  "effect_deps s = Some [] \<Longrightarrow> session rv rt n s = (replicate n (view rv rt s), s)"
  by (induction n) (simp_all add: render_pass_mounted)

lemma render_pass_view: "fst (render_pass rv rt s) = view rv rt s"
  by (cases rv) (simp_all add: Home_def Home_rev1_def)

lemma session_mount:
  "session rv rt (Suc n) initial_page =
     (view rv rt initial_page # replicate n (settled_view rv rt), page_load rv rt)"
proof -
  have "render_pass rv rt initial_page = (view rv rt initial_page, page_load rv rt)"
    by (simp add: page_load_def prod_eq_iff render_pass_view)
  then show ?thesis
    by (simp add: session_mounted page_load_deps settled_view_def)
qed

lemmas sample_defs = sample_runtime_def respond_def http_response_def ok_def
  sample_post_def sample_post_with_image_def

lemma string_of_nat_404: "string_of_nat 404 = ''404''"
  by code_simp

lemma text_content_empty_view:
  "\<not> loading s \<Longrightarrow> \<not> truthy (error s) \<Longrightarrow> posts s = [] \<Longrightarrow>
     text_content (view rv rt s) = empty_text rv"
  by (cases rv) (simp_all add: Home_view_def Home_view_rev1_def)

subsection \<open>The claims\<close>

text \<open>
  C1. When the fetch succeeds and the body parses as an array of N posts, the view
  holds exactly N post cards, and the i-th card shows the title, the excerpt and all
  the tags of the i-th post, in array order. (Both revisions; for N = 0 there are no
  cards.)
\<close>

theorem cards_match_posts:
  assumes "fetch rt (request_of rv rt) = Fulfilled response"
    and "ok response"
    and "json response = Fulfilled ps"
  shows "post_cards (settled_view rv rt) = map (card_of rv rt) ps \<and>
         length (post_cards (settled_view rv rt)) = length ps \<and>
         (\<forall>i<length ps.
            card_headings rv (post_cards (settled_view rv rt) ! i) = [title (ps ! i)] \<and>
            card_paragraphs (post_cards (settled_view rv rt) ! i) =
              [excerpt (ps ! i), ''Published: '' @ toLocaleDateString rt (createdAt (ps ! i))] \<and>
            card_tags (post_cards (settled_view rv rt) ! i) = tags (ps ! i))"
proof -
  have cards: "post_cards (settled_view rv rt) = map (card_of rv rt) ps"
    by (simp add: settled_view_def post_cards_view page_load_loading page_load_success [OF assms])
  show ?thesis
    by (simp add: cards card_headings_card card_paragraphs_card card_tags_card)
qed

theorem cards_match_posts_witness:
  "fetch two_posts_runtime (request_of Rev2 two_posts_runtime) =
     Fulfilled (http_response 200 (Fulfilled [sample_post, sample_post_with_image])) \<and>
   ok (http_response 200 (Fulfilled [sample_post, sample_post_with_image])) \<and>
   json (http_response 200 (Fulfilled [sample_post, sample_post_with_image])) =
     Fulfilled [sample_post, sample_post_with_image] \<and>
   length (post_cards (settled_view Rev2 two_posts_runtime)) = 2 \<and>
   card_headings Rev2 (post_cards (settled_view Rev2 two_posts_runtime) ! 0) = [''Hello''] \<and>
   card_tags (post_cards (settled_view Rev2 two_posts_runtime) ! 0) = [''java'', ''spring''] \<and>
   card_paragraphs (post_cards (settled_view Rev2 two_posts_runtime) ! 1) =
     [''Second post'', ''Published: 2024-02-01'']"
proof -
  let ?r = "http_response 200 (Fulfilled [sample_post, sample_post_with_image])"
  have h1: "fetch two_posts_runtime (request_of Rev2 two_posts_runtime) = Fulfilled ?r"
    by (simp add: two_posts_runtime_def sample_defs)
  have h2: "ok ?r"
    by (simp add: sample_defs)
  have h3: "json ?r = Fulfilled [sample_post, sample_post_with_image]"
    by (simp add: sample_defs)
  note t = cards_match_posts [OF h1 h2 h3]
  note nth = t [THEN conjunct2, THEN conjunct2, rule_format]
  from t have len: "length (post_cards (settled_view Rev2 two_posts_runtime)) = 2"
    by simp
  have c0: "card_headings Rev2 (post_cards (settled_view Rev2 two_posts_runtime) ! 0) =
        [title sample_post] \<and>
      card_tags (post_cards (settled_view Rev2 two_posts_runtime) ! 0) = tags sample_post"
    using nth [of 0] by simp
  have c1: "card_paragraphs (post_cards (settled_view Rev2 two_posts_runtime) ! 1) =
      [excerpt sample_post_with_image,
       ''Published: '' @ toLocaleDateString two_posts_runtime (createdAt sample_post_with_image)]"
    using nth [of 1] by simp
  have d: "title sample_post = ''Hello''" "tags sample_post = [''java'', ''spring'']"
    "excerpt sample_post_with_image = ''Second post''"
    "toLocaleDateString two_posts_runtime (createdAt sample_post_with_image) = ''2024-02-01''"
    by (simp_all add: sample_post_def sample_post_with_image_def two_posts_runtime_def
        sample_runtime_def)
  show ?thesis
    using h1 h2 h3 len c0 c1 by (simp only: d append.simps simp_thms)
qed

text \<open>
  C2. When the fetch resolves with a status outside 200-299, the view is the error
  message, there are no post cards, and \<open>posts\<close> is still the initial empty array.
\<close>

theorem http_error_shows_error:
  assumes "fetch rt (request_of rv rt) = Fulfilled response"
    and "\<not> ok response"
  shows "branch_of rv (settled_view rv rt) =
           Some (ErrorMessage (''HTTP error! status: '' @ string_of_nat (status response))) \<and>
         post_cards (settled_view rv rt) = [] \<and>
         posts (page_load rv rt) = []"
  by (simp add: settled_view_def branch_of_view post_cards_view page_load_loading
      page_load_http_error [OF assms])

theorem http_error_shows_error_witness:
  "fetch not_found_runtime (request_of Rev2 not_found_runtime) =
     Fulfilled (http_response 404 (Fulfilled [])) \<and>
   \<not> ok (http_response 404 (Fulfilled [])) \<and>
   branch_of Rev2 (settled_view Rev2 not_found_runtime) =
     Some (ErrorMessage ''HTTP error! status: 404'') \<and>
   post_cards (settled_view Rev2 not_found_runtime) = [] \<and>
   posts (page_load Rev2 not_found_runtime) = []"
proof -
  let ?r = "http_response 404 (Fulfilled [])"
  have h1: "fetch not_found_runtime (request_of Rev2 not_found_runtime) = Fulfilled ?r"
    by (simp add: not_found_runtime_def sample_defs)
  have h2: "\<not> ok ?r"
    by (simp add: sample_defs)
  have s: "status ?r = 404"
    by (simp add: sample_defs)
  show ?thesis
    using h1 h2 http_error_shows_error [OF h1 h2]
    by (simp add: s string_of_nat_404)
qed


text \<open>
  C3. When the fetch succeeds and the body is the empty array, the view is the
  empty-state message: no post cards, neither the loading nor the error message.
\<close>

theorem empty_array_shows_empty_message:
  assumes "fetch rt (request_of rv rt) = Fulfilled response"
    and "ok response"
    and "json response = Fulfilled []"
  shows "branch_of rv (settled_view rv rt) = Some EmptyMessage \<and>
         text_content (settled_view rv rt) = empty_text rv \<and>
         post_cards (settled_view rv rt) = [] \<and>
         branch_of rv (settled_view rv rt) \<noteq> Some LoadingMessage \<and>
         (\<forall>m. branch_of rv (settled_view rv rt) \<noteq> Some (ErrorMessage m))"
proof -
  have st: "posts (page_load rv rt) = []" "error (page_load rv rt) = None"
    "loading (page_load rv rt) = False"
    by (simp_all add: page_load_success [OF assms] page_load_loading)
  have tc: "text_content (settled_view rv rt) = empty_text rv"
    unfolding settled_view_def by (rule text_content_empty_view) (simp_all add: st)
  have br: "branch_of rv (settled_view rv rt) = Some EmptyMessage"
    by (simp add: settled_view_def branch_of_view st)
  have pc: "post_cards (settled_view rv rt) = []"
    by (simp add: settled_view_def post_cards_view st)
  show ?thesis
    by (simp add: tc br pc)
qed

theorem empty_array_shows_empty_message_witness:
  "fetch no_posts_runtime (request_of Rev2 no_posts_runtime) =
     Fulfilled (http_response 200 (Fulfilled [])) \<and>
   ok (http_response 200 (Fulfilled [])) \<and>
   json (http_response 200 (Fulfilled [])) = Fulfilled [] \<and>
   branch_of Rev2 (settled_view Rev2 no_posts_runtime) = Some EmptyMessage \<and>
   text_content (settled_view Rev2 no_posts_runtime) =
     ''No posts found yet. Add some via the backend API!'' \<and>
   post_cards (settled_view Rev2 no_posts_runtime) = []"
proof -
  let ?r = "http_response 200 (Fulfilled [])"
  have h1: "fetch no_posts_runtime (request_of Rev2 no_posts_runtime) = Fulfilled ?r"
    by (simp add: no_posts_runtime_def sample_defs)
  have h2: "ok ?r"
    by (simp add: sample_defs)
  have h3: "json ?r = Fulfilled []"
    by (simp add: sample_defs)
  show ?thesis
    using h1 h2 h3 empty_array_shows_empty_message [OF h1 h2 h3] by simp
qed





text \<open>
  C5, as stated: on every page load the base URL of the request is taken from the
  configuration value. The first revision (line 30) reads no configuration value:
  with \<^verbatim>\<open>NEXT_PUBLIC_BACKEND_URL\<close> set to another host it still asks
  \<^verbatim>\<open>http://localhost:8080/api/posts\<close>.
\<close>

theorem request_url_counterexample:
  "NEXT_PUBLIC_BACKEND_URL configured_runtime = Some ''https://api.example.com'' \<and>
   requests (page_load Rev1 configured_runtime) = [GET ''http://localhost:8080/api/posts''] \<and>
   requests (page_load Rev1 configured_runtime) \<noteq> [GET ''https://api.example.com/api/posts'']"
proof -
  have env: "NEXT_PUBLIC_BACKEND_URL configured_runtime = Some ''https://api.example.com''"
    by (simp add: configured_runtime_def sample_runtime_def)
  have req: "requests (page_load Rev1 configured_runtime) = [GET ''http://localhost:8080/api/posts'']"
    by (simp add: page_load_requests posts_request_rev1_def)
  show ?thesis
    by (simp add: env req)
qed

text \<open>
  C5, amended. On every page load the request is a GET to the base URL followed by
  \<^verbatim>\<open>/api/posts\<close>. The revised page takes the base URL from
  \<^verbatim>\<open>NEXT_PUBLIC_BACKEND_URL\<close> and falls back to \<^verbatim>\<open>http://localhost:8080\<close> when the
  value is unset (or empty); the first revision reads no configuration value and
  always uses the placeholder \<^verbatim>\<open>http://localhost:8080\<close>.
\<close>

theorem request_url:
  "requests (page_load Rev2 rt) =
     [GET ((case NEXT_PUBLIC_BACKEND_URL rt of
              None \<Rightarrow> ''http://localhost:8080''
            | Some u \<Rightarrow> if u = [] then ''http://localhost:8080'' else u) @ ''/api/posts'')] \<and>
   requests (page_load Rev1 rt) = [GET (''http://localhost:8080'' @ ''/api/posts'')]"
proof -
  have "backendUrl rt =
      (case NEXT_PUBLIC_BACKEND_URL rt of
         None \<Rightarrow> ''http://localhost:8080''
       | Some u \<Rightarrow> if u = [] then ''http://localhost:8080'' else u)"
    by (cases "NEXT_PUBLIC_BACKEND_URL rt") (simp_all add: backendUrl_def)
  then show ?thesis
    by (simp add: page_load_requests posts_request_def posts_request_rev1_def)
qed

theorem request_url_witness:
  "requests (page_load Rev2 configured_runtime) = [GET ''https://api.example.com/api/posts''] \<and>
   requests (page_load Rev2 no_posts_runtime) = [GET ''http://localhost:8080/api/posts''] \<and>
   requests (page_load Rev1 configured_runtime) = [GET ''http://localhost:8080/api/posts'']"
  using request_url [of configured_runtime] request_url [of no_posts_runtime]
  by (simp add: configured_runtime_def no_posts_runtime_def sample_runtime_def)

text \<open>
  C6. A page session issues exactly one request: the effect runs on the mount, and
  however many renders follow, whatever the outcome of the fetch, the log of requests
  stays the one request.
\<close>

theorem one_request_per_session:
  "requests (snd (session rv rt (Suc n) initial_page)) = [request_of rv rt] \<and>
   length (requests (snd (session rv rt (Suc n) initial_page))) = 1"
  by (simp only: session_mount snd_conv page_load_requests) simp

theorem one_request_per_session_witness:
  "requests (snd (session Rev2 not_found_runtime 5 initial_page)) =
     [GET ''http://localhost:8080/api/posts'']"
proof -
  have five: "(5::nat) = Suc 4"
    by simp
  have q: "request_of Rev2 not_found_runtime = GET ''http://localhost:8080/api/posts''"
    by (simp add: not_found_runtime_def sample_runtime_def posts_request_def backendUrl_def)
  show ?thesis
    using one_request_per_session [of Rev2 not_found_runtime 4, THEN conjunct1]
    by (simp only: five q)
qed

text \<open>
  C7, as stated: the error message is shown whenever loading is over and the error is
  set. A fetch that rejects with \<^verbatim>\<open>new Error()\<close> sets the error to the empty string,
  and the page then shows the empty-state message.
\<close>

theorem error_precedence_counterexample:
  "loading (page_load Rev2 empty_message_runtime) = False \<and>
   error (page_load Rev2 empty_message_runtime) = Some [] \<and>
   posts (page_load Rev2 empty_message_runtime) = [] \<and>
   branch_of Rev2 (settled_view Rev2 empty_message_runtime) = Some EmptyMessage \<and>
   text_content (settled_view Rev2 empty_message_runtime) =
     ''No posts found yet. Add some via the backend API!''"
proof -
  have h: "fetch empty_message_runtime (request_of Rev2 empty_message_runtime) =
      Rejected (ErrorInstance [])"
    by (simp add: empty_message_runtime_def sample_defs)
  note st = page_load_fetch_rejected [OF h] page_load_loading [of Rev2 empty_message_runtime]
  have tc: "text_content (settled_view Rev2 empty_message_runtime) = empty_text Rev2"
    unfolding settled_view_def by (rule text_content_empty_view) (simp_all add: st)
  have br: "branch_of Rev2 (settled_view Rev2 empty_message_runtime) = Some EmptyMessage"
    unfolding settled_view_def branch_of_view by (simp add: st)
  show ?thesis
    using tc br by (simp add: st)
qed

text \<open>
  C7, amended. Every view state is rendered as exactly one of four branches, by this
  precedence: the loading message if \<open>loading\<close> is true; else the error message if
  \<open>error\<close> is a non-empty string; else the empty-state message if \<open>posts\<close> is empty;
  else the list of post cards.
\<close>

theorem view_branch_precedence:
  "branch_of rv (view rv rt s) =
     Some (if loading s then LoadingMessage
           else if truthy (error s) then ErrorMessage (case error s of Some e \<Rightarrow> e | None \<Rightarrow> [])
           else if posts s = [] then EmptyMessage
           else PostList) \<and>
   truthy (error s) = (\<exists>e. error s = Some e \<and> e \<noteq> [])"
proof -
  have "truthy (error s) = (\<exists>e. error s = Some e \<and> e \<noteq> [])"
    by (cases "error s") simp_all
  then show ?thesis
    by (simp only: branch_of_view simp_thms)
qed

theorem view_branch_precedence_witness:
  "branch_of Rev2 (view Rev2 two_posts_runtime (page_load Rev2 two_posts_runtime)) = Some PostList \<and>
   branch_of Rev1 (view Rev1 two_posts_runtime initial_page) = Some LoadingMessage"
proof -
  have h: "fetch two_posts_runtime (request_of Rev2 two_posts_runtime) =
      Fulfilled (http_response 200 (Fulfilled [sample_post, sample_post_with_image]))"
    by (simp add: two_posts_runtime_def sample_defs)
  have st: "posts (page_load Rev2 two_posts_runtime) = [sample_post, sample_post_with_image]"
    "error (page_load Rev2 two_posts_runtime) = None"
    by (rule page_load_success [OF h]; simp add: sample_defs)+
  have a: "branch_of Rev2 (view Rev2 two_posts_runtime (page_load Rev2 two_posts_runtime)) =
      Some PostList"
    using view_branch_precedence [of Rev2 two_posts_runtime "page_load Rev2 two_posts_runtime"]
    by (simp add: st page_load_loading del: view.simps)
  have b: "branch_of Rev1 (view Rev1 two_posts_runtime initial_page) = Some LoadingMessage"
    using view_branch_precedence [of Rev1 two_posts_runtime initial_page]
    by (simp add: initial_page_def del: view.simps)
  show ?thesis
    using a b by (rule conjI)
qed

text \<open>
  C8. A \<open>Post\<close> is a flat record of exactly ten fields: numeric identifier, title,
  slug, content, excerpt, optional image URL, published flag, creation and update
  timestamps, and the list of tags. Only the image URL may be absent.
\<close>

theorem Post_fields:
  "(p :: Post) =
     \<lparr>post_id = (post_id p :: int), title = (title p :: string), slug = (slug p :: string),
      content = (content p :: string), excerpt = (excerpt p :: string),
      imageUrl = (imageUrl p :: string option), published = (published p :: bool),
      createdAt = (createdAt p :: string), updatedAt = (updatedAt p :: string),
      tags = (tags p :: string list)\<rparr> \<and>
   imageUrl (p\<lparr>imageUrl := None\<rparr>) = None"
  by simp

text \<open>
  C9. Whatever the outcome of the fetch, \<open>loading\<close> is false once it has settled:
  the render of the mount shows the loading message, and no later render does.
\<close>

theorem loading_cleared_when_fetch_settles:
  "loading (page_load rv rt) = False \<and>
   branch_of rv (settled_view rv rt) \<noteq> Some LoadingMessage \<and>
   fst (session rv rt (Suc n) initial_page) =
     view rv rt initial_page # replicate n (settled_view rv rt) \<and>
   branch_of rv (view rv rt initial_page) = Some LoadingMessage"
proof -
  have a: "branch_of rv (settled_view rv rt) \<noteq> Some LoadingMessage"
    by (simp add: settled_view_def branch_of_view page_load_loading)
  have b: "fst (session rv rt (Suc n) initial_page) =
      view rv rt initial_page # replicate n (settled_view rv rt)"
    by (simp only: session_mount fst_conv)
  have c: "branch_of rv (view rv rt initial_page) = Some LoadingMessage"
    by (simp add: branch_of_view initial_page_def)
  show ?thesis
    by (intro conjI page_load_loading a b c)
qed

theorem loading_cleared_when_fetch_settles_witness:
  "loading (page_load Rev1 bad_json_runtime) = False \<and>
   fst (session Rev1 bad_json_runtime 3 initial_page) =
     [view Rev1 bad_json_runtime initial_page, settled_view Rev1 bad_json_runtime,
      settled_view Rev1 bad_json_runtime] \<and>
   branch_of Rev1 (view Rev1 bad_json_runtime initial_page) = Some LoadingMessage \<and>
   branch_of Rev1 (settled_view Rev1 bad_json_runtime) \<noteq> Some LoadingMessage"
proof -
  have three: "(3::nat) = Suc 2"
    by simp
  have rep: "replicate 2 x = [x, x]" for x :: node
    by (simp add: numeral_2_eq_2)
  note t = loading_cleared_when_fetch_settles [of Rev1 bad_json_runtime 2]
  show ?thesis
    unfolding three using t by (simp only: rep simp_thms)
qed

text \<open>
  C10. A card holds an image element exactly when the post's image URL is present and
  non-empty (its source is then that URL); title, excerpt and tags are rendered in
  every card, with or without an image.
\<close>

theorem image_iff_image_url:
  "(card_images rv (card_of rv rt p) \<noteq> []) = (\<exists>u. imageUrl p = Some u \<and> u \<noteq> []) \<and>
   card_images rv (card_of rv rt p) =
     (case imageUrl p of None \<Rightarrow> [] | Some u \<Rightarrow> if u = [] then [] else [image_of rv p u]) \<and>
   map (attribute ''src'') (card_images rv (card_of rv rt p)) =
     (case imageUrl p of None \<Rightarrow> [] | Some u \<Rightarrow> if u = [] then [] else [Some (Str u)]) \<and>
   card_headings rv (card_of rv rt p) = [title p] \<and>
   card_paragraphs (card_of rv rt p) =
     [excerpt p, ''Published: '' @ toLocaleDateString rt (createdAt p)] \<and>
   card_tags (card_of rv rt p) = tags p"
proof -
  have src: "attribute ''src'' (image_of rv p u) = Some (Str u)" for u
    by (cases rv) (simp_all add: CardImage_def CardImage_rev1_def)
  have img: "card_images rv (card_of rv rt p) =
      (case imageUrl p of None \<Rightarrow> [] | Some u \<Rightarrow> if u = [] then [] else [image_of rv p u])"
    by (cases "imageUrl p") (simp_all add: card_images_card)
  have iff: "(card_images rv (card_of rv rt p) \<noteq> []) = (\<exists>u. imageUrl p = Some u \<and> u \<noteq> [])"
    by (cases "imageUrl p") (simp_all add: card_images_card)
  have srcs: "map (attribute ''src'') (card_images rv (card_of rv rt p)) =
      (case imageUrl p of None \<Rightarrow> [] | Some u \<Rightarrow> if u = [] then [] else [Some (Str u)])"
    by (cases "imageUrl p") (simp_all add: card_images_card src)
  show ?thesis
    by (intro conjI iff img srcs card_headings_card card_paragraphs_card card_tags_card)
qed

theorem image_iff_image_url_witness:
  "card_images Rev2 (card_of Rev2 two_posts_runtime sample_post) = [] \<and>
   card_headings Rev2 (card_of Rev2 two_posts_runtime sample_post) = [''Hello''] \<and>
   card_tags (card_of Rev2 two_posts_runtime sample_post) = [''java'', ''spring''] \<and>
   map (attribute ''src'') (card_images Rev2 (card_of Rev2 two_posts_runtime sample_post_with_image)) =
     [Some (Str ''https://example.com/a.png'')]"
proof -
  note a = image_iff_image_url [of Rev2 two_posts_runtime sample_post]
  note b = image_iff_image_url [of Rev2 two_posts_runtime sample_post_with_image]
  have d: "imageUrl sample_post = None" "title sample_post = ''Hello''"
    "tags sample_post = [''java'', ''spring'']"
    "imageUrl sample_post_with_image = Some ''https://example.com/a.png''"
    by (simp_all add: sample_post_def sample_post_with_image_def)
  have 1: "card_images Rev2 (card_of Rev2 two_posts_runtime sample_post) = []"
    using a [THEN conjunct2, THEN conjunct1] by (simp add: d del: card_of.simps)
  have 2: "card_headings Rev2 (card_of Rev2 two_posts_runtime sample_post) = [''Hello'']"
    using a by (simp add: d del: card_of.simps)
  have 3: "card_tags (card_of Rev2 two_posts_runtime sample_post) = [''java'', ''spring'']"
    using a by (simp add: d del: card_of.simps)
  have 4: "map (attribute ''src'')
      (card_images Rev2 (card_of Rev2 two_posts_runtime sample_post_with_image)) =
      [Some (Str ''https://example.com/a.png'')]"
    using b [THEN conjunct2, THEN conjunct2, THEN conjunct1] by (simp add: d del: card_of.simps)
  show ?thesis
    by (intro conjI 1 2 3 4)
qed

end
